theory Spec2Isabelle
  imports Complex_Main
begin

section \<open>Data model (app/models.py, app/config.py)\<close>

text \<open>
  Python floats are modelled by the reals. The engine is given twice: first with exact
  arithmetic, which is what the formulas of the specification denote, and then with every
  operation rounded to a double, which decides the comparisons as the machine does.
  Infinities and NaN are outside the model except where a definition below writes them
  out. The time stamps of the rows (\<open>created_at\<close>, \<open>opened_at\<close>,
  \<open>filled_at\<close>) and the \<open>db_path\<close> setting play no part in any operation
  modelled here and are left out. Field names carry the name of their table, since
  \<open>id\<close>, \<open>symbol\<close>, \<open>qty\<close> and \<open>cash\<close> occur in several tables.
\<close>

record Settings =
  slippage_bps :: real
  commistion_per_trade :: real
  default_cash :: real

record Account =
  acct_id :: nat
  acct_name :: string
  acct_cash :: real

record PositionLot =
  lot_id :: nat
  lot_account_id :: nat
  lot_symbol :: string
  lot_qty :: real
  lot_avg_cost :: real

record Trade =
  trade_id :: nat
  trade_account_id :: nat
  trade_symbol :: string
  trade_side :: string
  trade_qty :: real
  requested_price :: real
  fill_price :: real
  commission :: real
  trade_slippage_bps :: real
  trade_note :: string

record DailyMark =
  mark_id :: nat
  mark_account_id :: nat
  marked_on :: nat
  mark_equity :: real
  mark_cash :: real

text \<open>The ledger store: one list of rows per table, in insertion order.\<close>

record db =
  accounts :: "Account list"
  lots :: "PositionLot list"
  trades :: "Trade list"
  marks :: "DailyMark list"

definition empty_db :: db where
  "empty_db = \<lparr>accounts = [], lots = [], trades = [], marks = []\<rparr>"

text \<open>
  A session sees its own uncommitted changes (\<open>pending\<close>); \<open>commit\<close> makes them
  the stored state. An operation that raises never reaches its \<open>commit\<close>, and the
  caller's \<open>with get_session()\<close> block then drops the pending changes.
\<close>

record session =
  committed :: db
  pending :: db

definition get_session :: "db \<Rightarrow> session" where
  "get_session d = \<lparr>committed = d, pending = d\<rparr>"

definition commit :: "session \<Rightarrow> session" where
  "commit s = s\<lparr>committed := pending s\<rparr>"

datatype error =
  NotFound | NoPriceData | InsufficientFunds | InsufficientShares | InvalidSide
  | ZeroDivisionError | IndexError | InsufficientHistory

text \<open>The primary key of a new row: one more than the largest key in the table.\<close>

definition next_id :: "nat list \<Rightarrow> nat" where
  "next_id ids = Suc (fold max ids 0)"

text \<open>\<open>str.upper\<close> on ASCII text.\<close>

definition upper_char :: "char \<Rightarrow> char" where
  "upper_char c =
     (let n = (of_char c :: nat) in if 97 \<le> n \<and> n \<le> 122 then char_of (n - 32) else c)"

definition upper :: "string \<Rightarrow> string" where
  "upper s = map upper_char s"

section \<open>Trading engine (app/engine.py)\<close>

text \<open>\<open>select(Account).where(Account.name == name)\<close>, \<open>.first()\<close>.\<close>

definition find_account :: "db \<Rightarrow> string \<Rightarrow> Account option" where
  "find_account d n = find (\<lambda>a. acct_name a = n) (accounts d)"

text \<open>\<open>select(PositionLot).where(account_id == aid, symbol == sym)\<close>, \<open>.first()\<close>.\<close>

definition find_lot :: "db \<Rightarrow> nat \<Rightarrow> string \<Rightarrow> PositionLot option" where
  "find_lot d aid symbol = find (\<lambda>l. lot_account_id l = aid \<and> lot_symbol l = symbol) (lots d)"

text \<open>Writing a changed row back replaces the row with its primary key.\<close>

definition put_account :: "Account \<Rightarrow> session \<Rightarrow> session" where
  "put_account a s =
     s\<lparr>pending := (pending s)\<lparr>accounts :=
        map (\<lambda>b. if acct_id b = acct_id a then a else b) (accounts (pending s))\<rparr>\<rparr>"

definition put_lot :: "PositionLot \<Rightarrow> session \<Rightarrow> session" where
  "put_lot l s =
     s\<lparr>pending := (pending s)\<lparr>lots :=
        map (\<lambda>k. if lot_id k = lot_id l then l else k) (lots (pending s))\<rparr>\<rparr>"

definition add_lot :: "nat \<Rightarrow> string \<Rightarrow> real \<Rightarrow> real \<Rightarrow> session \<Rightarrow> session" where
  "add_lot aid symbol q c s =
     s\<lparr>pending := (pending s)\<lparr>lots := lots (pending s) @
        [\<lparr>lot_id = next_id (map lot_id (lots (pending s))), lot_account_id = aid,
          lot_symbol = symbol, lot_qty = q, lot_avg_cost = c\<rparr>]\<rparr>\<rparr>"

definition delete_lot :: "PositionLot \<Rightarrow> session \<Rightarrow> session" where
  "delete_lot l s =
     s\<lparr>pending := (pending s)\<lparr>lots :=
        filter (\<lambda>k. lot_id k \<noteq> lot_id l) (lots (pending s))\<rparr>\<rparr>"

definition add_trade :: "Trade \<Rightarrow> session \<Rightarrow> session" where
  "add_trade t s = s\<lparr>pending := (pending s)\<lparr>trades := trades (pending s) @ [t]\<rparr>\<rparr>"

definition add_account :: "Account \<Rightarrow> session \<Rightarrow> session" where
  "add_account a s = s\<lparr>pending := (pending s)\<lparr>accounts := accounts (pending s) @ [a]\<rparr>\<rparr>"

definition add_mark :: "DailyMark \<Rightarrow> session \<Rightarrow> session" where
  "add_mark m s = s\<lparr>pending := (pending s)\<lparr>marks := marks (pending s) @ [m]\<rparr>\<rparr>"

text \<open>\<open>_apply_slippage\<close>: a BUY pays up, anything else receives less.\<close>

definition apply_slippage :: "real \<Rightarrow> string \<Rightarrow> real \<Rightarrow> real" where
  "apply_slippage price side bps =
     (let slip = price * (bps / 10000)
      in if upper side = ''BUY'' then price + slip else price - slip)"

definition ensure_account ::
  "Settings \<Rightarrow> session \<Rightarrow> string \<Rightarrow> real option \<Rightarrow> session \<times> Account" where
  "ensure_account cfg s name cash =
     (case find_account (pending s) name of
        Some acct \<Rightarrow> (s, acct)
      | None \<Rightarrow>
          let acct = \<lparr>acct_id = next_id (map acct_id (accounts (pending s))),
                      acct_name = name,
                      acct_cash = (case cash of Some c \<Rightarrow> c | None \<Rightarrow> default_cash cfg)\<rparr>
          in (commit (add_account acct s), acct))"

text \<open>
  The tail of \<open>place_market_order\<close>: build the trade row, add it, commit, and return
  it as refreshed from the store.
\<close>

definition record_trade ::
  "Settings \<Rightarrow> session \<Rightarrow> Account \<Rightarrow> string \<Rightarrow> string \<Rightarrow> real \<Rightarrow> real \<Rightarrow> real \<Rightarrow> string
     \<Rightarrow> session \<times> (error + Trade)" where
  "record_trade cfg s acct symbol side qty px fill nt =
     (let tr = \<lparr>trade_id = next_id (map trade_id (trades (pending s))),
                 trade_account_id = acct_id acct, trade_symbol = symbol, trade_side = side,
                 trade_qty = qty, requested_price = px, fill_price = fill,
                 commission = commistion_per_trade cfg,
                 trade_slippage_bps = slippage_bps cfg, trade_note = nt\<rparr>
      in (commit (put_account acct (add_trade tr s)), Inr tr))"

text \<open>
  \<open>place_market_order\<close>. The quote provider is the parameter \<open>last_price\<close>, with
  \<open>None\<close> where the provider raises. Every \<open>raise\<close> returns the session as it is
  at that point. The division of the merge raises \<open>ZeroDivisionError\<close> on a zero
  divisor, as Python's float division does.
\<close>

definition place_market_order ::
  "Settings \<Rightarrow> (string \<Rightarrow> real option) \<Rightarrow> session \<Rightarrow> string \<Rightarrow> string \<Rightarrow> string \<Rightarrow> real
     \<Rightarrow> string \<Rightarrow> session \<times> (error + Trade)" where
  "place_market_order cfg last_price s account_name symbol side0 qty nt =
     (case find_account (pending s) account_name of
        None \<Rightarrow> (s, Inl NotFound)
      | Some acct \<Rightarrow>
         (case last_price symbol of
            None \<Rightarrow> (s, Inl NoPriceData)
          | Some px \<Rightarrow>
             (let fill = apply_slippage px side0 (slippage_bps cfg);
                  side = upper side0;
                  cost = fill * qty
              in if side = ''BUY'' then
                   (let total = cost + commistion_per_trade cfg
                    in if acct_cash acct < total then (s, Inl InsufficientFunds)
                       else
                        (let acct1 = acct\<lparr>acct_cash := acct_cash acct - total\<rparr>;
                             s1 = put_account acct1 s
                         in case find_lot (pending s1) (acct_id acct1) symbol of
                              Some lot \<Rightarrow>
                                (let new_qty = lot_qty lot + qty
                                 in if new_qty = 0 then (s1, Inl ZeroDivisionError)
                                    else record_trade cfg
                                      (put_lot (lot\<lparr>lot_avg_cost :=
                                           (lot_avg_cost lot * lot_qty lot + fill * qty) / new_qty,
                                         lot_qty := new_qty\<rparr>) s1)
                                      acct1 symbol side qty px fill nt)
                            | None \<Rightarrow>
                                record_trade cfg (add_lot (acct_id acct1) symbol qty fill s1)
                                  acct1 symbol side qty px fill nt))
                 else if side = ''SELL'' then
                   (case find_lot (pending s) (acct_id acct) symbol of
                      None \<Rightarrow> (s, Inl InsufficientShares)
                    | Some lot \<Rightarrow>
                        if lot_qty lot < qty then (s, Inl InsufficientShares)
                        else
                         (let acct1 = acct\<lparr>acct_cash :=
                                 acct_cash acct + (cost - commistion_per_trade cfg)\<rparr>;
                              s1 = put_account acct1 s;
                              lot1 = lot\<lparr>lot_qty := lot_qty lot - qty\<rparr>;
                              s2 = put_lot lot1 s1;
                              s3 = (if lot_qty lot1 = 0 then delete_lot lot1 s2 else s2)
                          in record_trade cfg s3 acct1 symbol side qty px fill nt))
                 else (s, Inl InvalidSide))))"

text \<open>\<open>compute_equity\<close>: the loop over the account's lots stops at the first missing quote.\<close>

fun positions_value :: "(string \<Rightarrow> real option) \<Rightarrow> PositionLot list \<Rightarrow> real \<Rightarrow> error + real" where
  "positions_value last_price [] acc = Inr acc"
| "positions_value last_price (lot # rest) acc =
     (case last_price (lot_symbol lot) of
        None \<Rightarrow> Inl NoPriceData
      | Some px \<Rightarrow> positions_value last_price rest (acc + lot_qty lot * px))"

definition compute_equity ::
  "(string \<Rightarrow> real option) \<Rightarrow> session \<Rightarrow> string \<Rightarrow> error + real" where
  "compute_equity last_price s account_name =
     (case find_account (pending s) account_name of
        None \<Rightarrow> Inl NotFound
      | Some acct \<Rightarrow>
         (case positions_value last_price
                 (filter (\<lambda>l. lot_account_id l = acct_id acct) (lots (pending s))) 0 of
            Inl e \<Rightarrow> Inl e
          | Inr v \<Rightarrow> Inr (acct_cash acct + v)))"

text \<open>\<open>mark_to_market\<close>; \<open>today\<close> stands for \<open>date.today()\<close>.\<close>

definition mark_to_market ::
  "(string \<Rightarrow> real option) \<Rightarrow> nat \<Rightarrow> session \<Rightarrow> string \<Rightarrow> session \<times> (error + DailyMark)" where
  "mark_to_market last_price today s account_name =
     (case find_account (pending s) account_name of
        None \<Rightarrow> (s, Inl NotFound)
      | Some acct \<Rightarrow>
         (case compute_equity last_price s account_name of
            Inl e \<Rightarrow> (s, Inl e)
          | Inr equity \<Rightarrow>
             (let mark = \<lparr>mark_id = next_id (map mark_id (marks (pending s))),
                          mark_account_id = acct_id acct, marked_on = today,
                          mark_equity = equity, mark_cash = acct_cash acct\<rparr>
              in (commit (add_mark mark s), Inr mark))))"

section \<open>The engine in double precision\<close>

text \<open>
  A Python float is an IEEE 754 binary64 number, and each arithmetic operation returns the
  exact result rounded to the nearest such number, ties to the even significand.
  \<open>round_double\<close> is that rounding on the reals: 53 significant bits, with the
  exponent of the last bit no lower than \<open>- 1074\<close>. Results beyond the largest finite
  double, where the machine gives an infinity, and NaN are outside the model.
  \<open>place_market_order_fp\<close> is \<open>place_market_order\<close> with every operation of
  engine.py rounded in this way; comparisons are exact.
\<close>

definition round_even :: "real \<Rightarrow> int" where
  "round_even x =
     (let f = \<lfloor>x\<rfloor>; d = x - of_int f
      in if d < 1 / 2 then f else if 1 / 2 < d then f + 1 else if even f then f else f + 1)"

definition binade :: "real \<Rightarrow> int" where
  "binade x = \<lfloor>log 2 \<bar>x\<bar>\<rfloor>"

definition round_double :: "real \<Rightarrow> real" where
  "round_double x =
     (if x = 0 then 0
      else (let q = 2 powi (max (binade x) (- 1022) - 52)
            in of_int (round_even (x / q)) * q))"

definition fadd :: "real \<Rightarrow> real \<Rightarrow> real" where
  "fadd a b = round_double (a + b)"

definition fsub :: "real \<Rightarrow> real \<Rightarrow> real" where
  "fsub a b = round_double (a - b)"

definition fmul :: "real \<Rightarrow> real \<Rightarrow> real" where
  "fmul a b = round_double (a * b)"

definition fdiv :: "real \<Rightarrow> real \<Rightarrow> real" where
  "fdiv a b = round_double (a / b)"

definition apply_slippage_fp :: "real \<Rightarrow> string \<Rightarrow> real \<Rightarrow> real" where
  "apply_slippage_fp price side bps =
     (let slip = fmul price (fdiv bps 10000)
      in if upper side = ''BUY'' then fadd price slip else fsub price slip)"

definition place_market_order_fp ::
  "Settings \<Rightarrow> (string \<Rightarrow> real option) \<Rightarrow> session \<Rightarrow> string \<Rightarrow> string \<Rightarrow> string \<Rightarrow> real
     \<Rightarrow> string \<Rightarrow> session \<times> (error + Trade)" where
  "place_market_order_fp cfg last_price s account_name symbol side0 qty nt =
     (case find_account (pending s) account_name of
        None \<Rightarrow> (s, Inl NotFound)
      | Some acct \<Rightarrow>
         (case last_price symbol of
            None \<Rightarrow> (s, Inl NoPriceData)
          | Some px \<Rightarrow>
             (let fill = apply_slippage_fp px side0 (slippage_bps cfg);
                  side = upper side0;
                  cost = fmul fill qty
              in if side = ''BUY'' then
                   (let total = fadd cost (commistion_per_trade cfg)
                    in if acct_cash acct < total then (s, Inl InsufficientFunds)
                       else
                        (let acct1 = acct\<lparr>acct_cash := fsub (acct_cash acct) total\<rparr>;
                             s1 = put_account acct1 s
                         in case find_lot (pending s1) (acct_id acct1) symbol of
                              Some lot \<Rightarrow>
                                (let new_qty = fadd (lot_qty lot) qty
                                 in if new_qty = 0 then (s1, Inl ZeroDivisionError)
                                    else record_trade cfg
                                      (put_lot (lot\<lparr>lot_avg_cost :=
                                           fdiv (fadd (fmul (lot_avg_cost lot) (lot_qty lot))
                                                      (fmul fill qty)) new_qty,
                                         lot_qty := new_qty\<rparr>) s1)
                                      acct1 symbol side qty px fill nt)
                            | None \<Rightarrow>
                                record_trade cfg (add_lot (acct_id acct1) symbol qty fill s1)
                                  acct1 symbol side qty px fill nt))
                 else if side = ''SELL'' then
                   (case find_lot (pending s) (acct_id acct) symbol of
                      None \<Rightarrow> (s, Inl InsufficientShares)
                    | Some lot \<Rightarrow>
                        if lot_qty lot < qty then (s, Inl InsufficientShares)
                        else
                         (let acct1 = acct\<lparr>acct_cash :=
                                 fadd (acct_cash acct)
                                      (fsub cost (commistion_per_trade cfg))\<rparr>;
                              s1 = put_account acct1 s;
                              lot1 = lot\<lparr>lot_qty := fsub (lot_qty lot) qty\<rparr>;
                              s2 = put_lot lot1 s1;
                              s3 = (if lot_qty lot1 = 0 then delete_lot lot1 s2 else s2)
                          in record_trade cfg s3 acct1 symbol side qty px fill nt))
                 else (s, Inl InvalidSide))))"

section \<open>Sequences of operations on the stored ledger\<close>

text \<open>
  The command line opens one session per command. A run is a list of steps, each with the
  settings, the quotes and the date in force when it executes; what a step leaves behind
  is the committed state of its session. \<open>compute_equity\<close> only reads.
\<close>

datatype op =
  EnsureAccount string "real option"
  | PlaceMarketOrder string string string real string
  | ComputeEquity string
  | MarkToMarket string

fun run_op :: "Settings \<Rightarrow> (string \<Rightarrow> real option) \<Rightarrow> nat \<Rightarrow> op \<Rightarrow> db \<Rightarrow> db" where
  "run_op cfg last_price today (EnsureAccount name cash) d =
     committed (fst (ensure_account cfg (get_session d) name cash))"
| "run_op cfg last_price today (PlaceMarketOrder account_name symbol side qty nt) d =
     committed (fst (place_market_order cfg last_price (get_session d) account_name symbol
                       side qty nt))"
| "run_op cfg last_price today (ComputeEquity account_name) d =
     (case compute_equity last_price (get_session d) account_name of
        Inl e \<Rightarrow> committed (get_session d)
      | Inr v \<Rightarrow> committed (get_session d))"
| "run_op cfg last_price today (MarkToMarket account_name) d =
     committed (fst (mark_to_market last_price today (get_session d) account_name))"

type_synonym step = "Settings \<times> (string \<Rightarrow> real option) \<times> nat \<times> op"

fun run :: "step list \<Rightarrow> db \<Rightarrow> db" where
  "run [] d = d"
| "run ((cfg, last_price, today, c) # rest) d = run rest (run_op cfg last_price today c d)"

fun step_op :: "step \<Rightarrow> op" where
  "step_op (cfg, last_price, today, c) = c"

text \<open>An order for a positive quantity; the other operations carry no quantity.\<close>

fun positive_qty :: "op \<Rightarrow> bool" where
  "positive_qty (PlaceMarketOrder account_name symbol side qty nt) = (0 < qty)"
| "positive_qty c = True"

section \<open>Screener (app/screener.py, app/market_data.py)\<close>

text \<open>
  The provider's daily closes for a symbol are a list, oldest first, with \<open>None\<close> for
  a missing close (NaN). \<open>history\<close> raises on an empty frame.
\<close>

definition history :: "(string \<Rightarrow> real option list) \<Rightarrow> string \<Rightarrow> error + real option list" where
  "history yf symbol = (let df = yf symbol in if df = [] then Inl NoPriceData else Inr df)"

definition dropna :: "real option list \<Rightarrow> real list" where
  "dropna col = concat (map (\<lambda>v. case v of None \<Rightarrow> [] | Some x \<Rightarrow> [x]) col)"

text \<open>\<open>Series.iloc[k]\<close>: a negative position counts from the end, and a position
  outside the series raises \<open>IndexError\<close>.\<close>

definition iloc :: "real list \<Rightarrow> int \<Rightarrow> error + real" where
  "iloc close k =
     (if 0 \<le> k then (if k < int (length close) then Inr (close ! nat k) else Inl IndexError)
      else (if - k \<le> int (length close) then Inr (close ! nat (int (length close) + k))
            else Inl IndexError))"

text \<open>\<open>pct_change\<close> without its leading NaN, the mean, and the sample standard
  deviation that \<open>rolling(n).std()\<close> computes on a full window.\<close>

definition pct_change :: "real list \<Rightarrow> real list" where
  "pct_change close = map (\<lambda>i. close ! Suc i / close ! i - 1) [0 ..< length close - 1]"

definition mean :: "real list \<Rightarrow> real" where
  "mean xs = sum_list xs / real (length xs)"

definition std :: "real list \<Rightarrow> real" where
  "std xs = sqrt (sum_list (map (\<lambda>x. (x - mean xs)\<^sup>2) xs) / (real (length xs) - 1))"

definition last_n :: "nat \<Rightarrow> real list \<Rightarrow> real list" where
  "last_n n xs = drop (length xs - n) xs"

record Momentum =
  m_symbol :: string
  ret_1m :: real
  ret_3m :: real
  ret_6m :: real
  vol_20d :: real
  above_sma50 :: bool
  score :: real

definition momentum_score :: "(string \<Rightarrow> real option list) \<Rightarrow> string \<Rightarrow> error + Momentum" where
  "momentum_score yf symbol =
     (case history yf symbol of
        Inl e \<Rightarrow> Inl e
      | Inr df \<Rightarrow>
         (let close = dropna df
          in if length close < 60 then Inl InsufficientHistory
             else
              (case iloc close (- 1) of Inl e \<Rightarrow> Inl e | Inr c1 \<Rightarrow>
              (case iloc close (- 21) of Inl e \<Rightarrow> Inl e | Inr c21 \<Rightarrow>
              (case iloc close (- 63) of Inl e \<Rightarrow> Inl e | Inr c63 \<Rightarrow>
              (case iloc close 0 of Inl e \<Rightarrow> Inl e | Inr c0 \<Rightarrow>
                 (let r1 = c1 / c21 - 1;
                      r3 = c1 / c63 - 1;
                      r6 = c1 / c0 - 1;
                      vol = std (last_n 20 (pct_change close));
                      sma50 = mean (last_n 50 close)
                  in Inr \<lparr>m_symbol = symbol, ret_1m = r1, ret_3m = r3, ret_6m = r6,
                           vol_20d = vol, above_sma50 = (sma50 < c1),
                           score = r3 + r1\<rparr>)))))))"

section \<open>Comparison (app/compare.py)\<close>

text \<open>
  \<open>max_drawdown\<close> is three pandas operations on a float series. Its input is a list
  of finite values; its quotients can be infinite or NaN, which pandas produces without
  raising, so the results live in \<open>np_float\<close>. \<open>Series.min\<close> skips NaN and is NaN
  when nothing is left. The sign of a zero is not modelled.
\<close>

datatype np_float = Fin real | PInf | NInf | NaN

fun cummax_from :: "real \<Rightarrow> real list \<Rightarrow> real list" where
  "cummax_from m [] = []"
| "cummax_from m (x # xs) = max m x # cummax_from (max m x) xs"

fun cummax :: "real list \<Rightarrow> real list" where
  "cummax [] = []"
| "cummax (x # xs) = x # cummax_from x xs"

fun np_div :: "real \<Rightarrow> real \<Rightarrow> np_float" where
  "np_div x p =
     (if p = 0 then (if x = 0 then NaN else if 0 < x then PInf else NInf) else Fin (x / p))"

fun np_sub :: "np_float \<Rightarrow> real \<Rightarrow> np_float" where
  "np_sub (Fin r) c = Fin (r - c)"
| "np_sub v c = v"

fun np_min :: "np_float \<Rightarrow> np_float \<Rightarrow> np_float" where
  "np_min NaN b = b"
| "np_min a NaN = a"
| "np_min NInf b = NInf"
| "np_min a NInf = NInf"
| "np_min PInf b = b"
| "np_min a PInf = a"
| "np_min (Fin a) (Fin b) = Fin (min a b)"

definition series_min :: "np_float list \<Rightarrow> np_float" where
  "series_min vs = fold np_min vs NaN"

definition max_drawdown :: "real list \<Rightarrow> np_float" where
  "max_drawdown series =
     (let peak = cummax series;
          dd = map (\<lambda>(x, p). np_sub (np_div x p) 1) (zip series peak)
      in series_min dd)"

text \<open>
  The dashboard (app/ui.py) has its own copy of \<open>max_drawdown\<close>, which returns 0 for a
  series without values instead of taking the minimum.
\<close>

definition max_drawdown_ui :: "real list \<Rightarrow> np_float" where
  "max_drawdown_ui series =
     (let peak = cummax series;
          dd = map (\<lambda>(x, p). np_sub (np_div x p) 1) (zip series peak)
      in if length dd \<noteq> 0 then series_min dd else Fin 0)"

text \<open>
  The drawdown as the specification words it: the least value over the series of the
  current value over the running peak, minus one.
\<close>

definition running_peak :: "real list \<Rightarrow> nat \<Rightarrow> real" where
  "running_peak series i = Max (set (take (Suc i) series))"

definition least_drawdown :: "real list \<Rightarrow> real" where
  "least_drawdown series =
     Min ((\<lambda>i. series ! i / running_peak series i - 1) ` {..<length series})"

section \<open>The configuration defaults and a seeded ledger\<close>

text \<open>
  \<open>settings\<close> with no environment variable set (app/config.py), and the ledger after
  \<open>ensure_account\<close> has created the account \<open>core\<close> with cash 5000.
\<close>

definition settings :: Settings where
  "settings = \<lparr>slippage_bps = 10, commistion_per_trade = 1 / 2, default_cash = 5000\<rparr>"

definition core_db :: db where
  "core_db = \<lparr>accounts = [\<lparr>acct_id = 1, acct_name = ''core'', acct_cash = 5000\<rparr>],
               lots = [], trades = [], marks = []\<rparr>"

text \<open>The ledger after the account \<open>core\<close> has bought 10 AAPL at the quote 100.\<close>

definition holding_db :: db where
  "holding_db =
     \<lparr>accounts = [\<lparr>acct_id = 1, acct_name = ''core'', acct_cash = 7997 / 2\<rparr>],
      lots = [\<lparr>lot_id = 1, lot_account_id = 1, lot_symbol = ''AAPL'', lot_qty = 10,
               lot_avg_cost = 1001 / 10\<rparr>],
      trades = [\<lparr>trade_id = 1, trade_account_id = 1, trade_symbol = ''AAPL'',
                 trade_side = ''BUY'', trade_qty = 10, requested_price = 100,
                 fill_price = 1001 / 10, commission = 1 / 2, trade_slippage_bps = 10,
                 trade_note = []\<rparr>],
      marks = []\<rparr>"

text \<open>The invariant of the position lots: every quantity is positive.\<close>

definition lots_positive :: "db \<Rightarrow> bool" where
  "lots_positive d = (\<forall>l \<in> set (lots d). 0 < lot_qty l)"

section \<open>Properties of the trading engine\<close>

lemma upper_BUY: "upper ''BUY'' = ''BUY''"
  by code_simp
lemma upper_buy: "upper ''buy'' = ''BUY''"
  by code_simp
lemma upper_SELL: "upper ''SELL'' = ''SELL''"
  by code_simp
lemma upper_HOLD: "upper ''HOLD'' = ''HOLD''"
  by code_simp

lemma find_replace:
  "find P xs = Some x \<Longrightarrow> P x' \<Longrightarrow> find P (map (\<lambda>y. if k y = k x then x' else y) xs) = Some x'"
  by (induction xs) (auto split: if_splits)

lemma find_snoc_new: "find P xs = None \<Longrightarrow> P x \<Longrightarrow> find P (xs @ [x]) = Some x"
  by (induction xs) (auto split: if_splits)

lemma session_simps:
  "committed (commit s) = pending s"
  "pending (commit s) = pending s"
  "accounts (pending (put_lot l s)) = accounts (pending s)"
  "accounts (pending (add_lot aid symbol q c s)) = accounts (pending s)"
  "accounts (pending (delete_lot l s)) = accounts (pending s)"
  "accounts (pending (add_trade t s)) = accounts (pending s)"
  "lots (pending (put_account a s)) = lots (pending s)"
  "lots (pending (add_trade t s)) = lots (pending s)"
  "trades (pending (put_account a s)) = trades (pending s)"
  "trades (pending (put_lot l s)) = trades (pending s)"
  "trades (pending (add_lot aid symbol q c s)) = trades (pending s)"
  "trades (pending (delete_lot l s)) = trades (pending s)"
  "trades (pending (add_trade t s)) = trades (pending s) @ [t]"
  "committed (put_account a s) = committed s"
  "committed (put_lot l s) = committed s"
  "committed (add_lot aid symbol q c s) = committed s"
  "committed (delete_lot l s) = committed s"
  "committed (add_trade t s) = committed s"
  by (simp_all add: commit_def put_lot_def add_lot_def delete_lot_def add_trade_def
        put_account_def)

lemma find_account_put:
  "find_account (pending s) n = Some a \<Longrightarrow> acct_name a' = n \<Longrightarrow> acct_id a' = acct_id a \<Longrightarrow>
   find_account (pending (put_account a' s)) n = Some a'"
  unfolding find_account_def put_account_def
  using find_replace [of "\<lambda>a. acct_name a = n" "accounts (pending s)" a a' acct_id]
  by simp

lemma find_account_other:
  "find_account (pending (put_lot l s)) n = find_account (pending s) n"
  "find_account (pending (add_lot aid symbol q c s)) n = find_account (pending s) n"
  "find_account (pending (delete_lot l s)) n = find_account (pending s) n"
  "find_account (pending (add_trade t s)) n = find_account (pending s) n"
  "find_account (committed (commit s)) n = find_account (pending s) n"
  by (simp_all add: find_account_def session_simps)

lemma find_lot_other:
  "find_lot (pending (put_account a s)) aid symbol = find_lot (pending s) aid symbol"
  "find_lot (pending (add_trade t s)) aid symbol = find_lot (pending s) aid symbol"
  "find_lot (committed (commit s)) aid symbol = find_lot (pending s) aid symbol"
  by (simp_all add: find_lot_def session_simps)

text \<open>The account row after a successful order.\<close>

lemma order_success_account:
  assumes acct: "find_account (pending s) account_name = Some acct"
    and run: "place_market_order cfg last_price s account_name symbol side qty nt = (s', Inr tr)"
  shows "last_price symbol = Some (requested_price tr)"
    and "upper side = ''BUY'' \<Longrightarrow>
           fill_price tr = requested_price tr + requested_price tr * (slippage_bps cfg / 10000) \<and>
           find_account (committed s') account_name =
             Some (acct\<lparr>acct_cash := acct_cash acct - (fill_price tr * qty + commistion_per_trade cfg)\<rparr>)"
    and "upper side = ''SELL'' \<Longrightarrow>
           fill_price tr = requested_price tr - requested_price tr * (slippage_bps cfg / 10000) \<and>
           find_account (committed s') account_name =
             Some (acct\<lparr>acct_cash := acct_cash acct + (fill_price tr * qty - commistion_per_trade cfg)\<rparr>)"
proof -
  have nm: "acct_name acct = account_name"
    using acct by (auto simp: find_account_def dest: find_Some_iff [THEN iffD1])
  obtain px where px: "last_price symbol = Some px"
    using run acct by (cases "last_price symbol") (auto simp: place_market_order_def)
  show "last_price symbol = Some (requested_price tr)"
    using run acct px
    by (auto simp: place_market_order_def Let_def record_trade_def
          split: if_splits option.splits)
  {
    assume b: "upper side = ''BUY''"
    show "fill_price tr = requested_price tr + requested_price tr * (slippage_bps cfg / 10000) \<and>
           find_account (committed s') account_name =
             Some (acct\<lparr>acct_cash := acct_cash acct - (fill_price tr * qty + commistion_per_trade cfg)\<rparr>)"
      using run acct px b nm
      by (auto simp: place_market_order_def Let_def record_trade_def apply_slippage_def
            find_account_other find_account_put
            split: if_splits option.splits)
  }
  {
    assume b: "upper side = ''SELL''"
    show "fill_price tr = requested_price tr - requested_price tr * (slippage_bps cfg / 10000) \<and>
           find_account (committed s') account_name =
             Some (acct\<lparr>acct_cash := acct_cash acct + (fill_price tr * qty - commistion_per_trade cfg)\<rparr>)"
      using run acct px b nm
      by (auto simp: place_market_order_def Let_def record_trade_def apply_slippage_def
            find_account_other find_account_put
            split: if_splits option.splits)
  }
qed

text \<open>The scenario of the specification, run on the seeded ledger.\<close>

lemma scenario_run:
  "place_market_order settings (\<lambda>_. Some 100) (get_session core_db) ''core'' ''AAPL'' ''BUY'' 10 [] =
     (let d = \<lparr>accounts = [\<lparr>acct_id = 1, acct_name = ''core'', acct_cash = 7997 / 2\<rparr>],
               lots = [\<lparr>lot_id = 1, lot_account_id = 1, lot_symbol = ''AAPL'', lot_qty = 10,
                        lot_avg_cost = 1001 / 10\<rparr>],
               trades = [\<lparr>trade_id = 1, trade_account_id = 1, trade_symbol = ''AAPL'',
                          trade_side = ''BUY'', trade_qty = 10, requested_price = 100,
                          fill_price = 1001 / 10, commission = 1 / 2, trade_slippage_bps = 10,
                          trade_note = []\<rparr>],
               marks = []\<rparr>
      in (\<lparr>committed = d, pending = d\<rparr>,
          Inr \<lparr>trade_id = 1, trade_account_id = 1, trade_symbol = ''AAPL'',
                          trade_side = ''BUY'', trade_qty = 10, requested_price = 100,
                          fill_price = 1001 / 10, commission = 1 / 2, trade_slippage_bps = 10,
                          trade_note = []\<rparr>))"
  by (simp add: place_market_order_def settings_def core_db_def get_session_def
        find_account_def find_lot_def apply_slippage_def upper_BUY put_account_def
        record_trade_def add_lot_def add_trade_def commit_def next_id_def Let_def)

text \<open>
  C1. A successful market order fills at the quote times \<open>1 + slippage_bps / 10000\<close>
  for a BUY and times \<open>1 - slippage_bps / 10000\<close> for a SELL; the BUY takes the fill
  price times the quantity plus the commission from the account's cash, the SELL adds the
  fill price times the quantity minus the commission. In the scenario of the account
  \<open>core\<close> with cash 5000, a BUY of 10 at the quote 100 with 10 bps and commission 0.50
  fills at 100.10, debits 1001.50, leaves cash 3998.50 and one lot of quantity 10 at
  average cost 100.10.
\<close>

theorem market_order_fill_and_cash:
  "(find_account (pending s) account_name = Some acct \<and>
    place_market_order cfg last_price s account_name symbol side qty nt = (s', Inr tr) \<longrightarrow>
      last_price symbol = Some (requested_price tr) \<and>
      (upper side = ''BUY'' \<longrightarrow>
         fill_price tr = requested_price tr * (1 + slippage_bps cfg / 10000) \<and>
         find_account (committed s') account_name =
           Some (acct\<lparr>acct_cash :=
             acct_cash acct - (fill_price tr * qty + commistion_per_trade cfg)\<rparr>)) \<and>
      (upper side = ''SELL'' \<longrightarrow>
         fill_price tr = requested_price tr * (1 - slippage_bps cfg / 10000) \<and>
         find_account (committed s') account_name =
           Some (acct\<lparr>acct_cash :=
             acct_cash acct + (fill_price tr * qty - commistion_per_trade cfg)\<rparr>))) \<and>
   (let (s1, r) = place_market_order settings (\<lambda>_. Some 100) (get_session core_db)
                    ''core'' ''AAPL'' ''BUY'' 10 []
    in map_sum id fill_price r = Inr (1001 / 10) \<and>
       acct_cash (the (find_account (pending (get_session core_db)) ''core'')) -
         acct_cash (the (find_account (committed s1) ''core'')) = 2003 / 2 \<and>
       accounts (committed s1) = [\<lparr>acct_id = 1, acct_name = ''core'', acct_cash = 7997 / 2\<rparr>] \<and>
       lots (committed s1) = [\<lparr>lot_id = 1, lot_account_id = 1, lot_symbol = ''AAPL'',
                                lot_qty = 10, lot_avg_cost = 1001 / 10\<rparr>])"
proof (intro conjI impI)
  show "let (s1, r) = place_market_order settings (\<lambda>_. Some 100) (get_session core_db)
                    ''core'' ''AAPL'' ''BUY'' 10 []
    in map_sum id fill_price r = Inr (1001 / 10) \<and>
       acct_cash (the (find_account (pending (get_session core_db)) ''core'')) -
         acct_cash (the (find_account (committed s1) ''core'')) = 2003 / 2 \<and>
       accounts (committed s1) = [\<lparr>acct_id = 1, acct_name = ''core'', acct_cash = 7997 / 2\<rparr>] \<and>
       lots (committed s1) = [\<lparr>lot_id = 1, lot_account_id = 1, lot_symbol = ''AAPL'',
                                lot_qty = 10, lot_avg_cost = 1001 / 10\<rparr>]"
    unfolding scenario_run
    by (simp add: Let_def find_account_def get_session_def core_db_def)
next
  assume h: "find_account (pending s) account_name = Some acct \<and>
    place_market_order cfg last_price s account_name symbol side qty nt = (s', Inr tr)"
  then show "last_price symbol = Some (requested_price tr)"
    using order_success_account(1) by blast
  {
    assume b: "upper side = ''BUY''"
    from order_success_account(2) [OF conjunct1 [OF h] conjunct2 [OF h] b]
    show "fill_price tr = requested_price tr * (1 + slippage_bps cfg / 10000)"
      by (simp add: algebra_simps)
    from order_success_account(2) [OF conjunct1 [OF h] conjunct2 [OF h] b]
    show "find_account (committed s') account_name =
           Some (acct\<lparr>acct_cash :=
             acct_cash acct - (fill_price tr * qty + commistion_per_trade cfg)\<rparr>)"
      by simp
  }
  {
    assume b: "upper side = ''SELL''"
    from order_success_account(3) [OF conjunct1 [OF h] conjunct2 [OF h] b]
    show "fill_price tr = requested_price tr * (1 - slippage_bps cfg / 10000)"
      by (simp add: algebra_simps)
    from order_success_account(3) [OF conjunct1 [OF h] conjunct2 [OF h] b]
    show "find_account (committed s') account_name =
           Some (acct\<lparr>acct_cash :=
             acct_cash acct + (fill_price tr * qty - commistion_per_trade cfg)\<rparr>)"
      by simp
  }
qed

theorem market_order_fill_and_cash_witness:
  "find_account (committed (fst (place_market_order settings (\<lambda>_. Some 100)
       (get_session core_db) ''core'' ''AAPL'' ''buy'' 10 []))) ''core'' =
     Some \<lparr>acct_id = 1, acct_name = ''core'', acct_cash = 7997 / 2\<rparr>"
proof -
  let ?r = "place_market_order settings (\<lambda>_. Some 100) (get_session core_db)
              ''core'' ''AAPL'' ''buy'' 10 []"
  have acct: "find_account (pending (get_session core_db)) ''core'' =
      Some \<lparr>acct_id = 1, acct_name = ''core'', acct_cash = 5000\<rparr>"
    by (simp add: find_account_def get_session_def core_db_def)
  have run: "?r = (fst ?r, Inr \<lparr>trade_id = 1, trade_account_id = 1, trade_symbol = ''AAPL'',
                          trade_side = ''BUY'', trade_qty = 10, requested_price = 100,
                          fill_price = 1001 / 10, commission = 1 / 2, trade_slippage_bps = 10,
                          trade_note = []\<rparr>)"
    by (simp add: place_market_order_def settings_def core_db_def get_session_def
        find_account_def find_lot_def apply_slippage_def upper_buy put_account_def
        record_trade_def add_lot_def add_trade_def commit_def next_id_def Let_def)
  from market_order_fill_and_cash [THEN conjunct1, rule_format, OF conjI [OF acct run]]
  show ?thesis
    by (simp add: upper_buy settings_def)
qed

lemma find_in_set: "find P xs = Some x \<Longrightarrow> x \<in> set xs \<and> P x"
  by (induction xs) (auto split: if_splits)

lemma find_lot_put:
  "find_lot (pending s) aid symbol = Some l \<Longrightarrow> lot_account_id l' = aid \<Longrightarrow>
   lot_symbol l' = symbol \<Longrightarrow> lot_id l' = lot_id l \<Longrightarrow>
   find_lot (pending (put_lot l' s)) aid symbol = Some l'"
  unfolding find_lot_def put_lot_def
  using find_replace [of "\<lambda>l. lot_account_id l = aid \<and> lot_symbol l = symbol"
      "lots (pending s)" l l' lot_id]
  by simp

lemma find_lot_add:
  "find_lot (pending s) aid symbol = None \<Longrightarrow>
   find_lot (pending (add_lot aid symbol q c s)) aid symbol =
     Some \<lparr>lot_id = next_id (map lot_id (lots (pending s))), lot_account_id = aid,
           lot_symbol = symbol, lot_qty = q, lot_avg_cost = c\<rparr>"
  unfolding find_lot_def add_lot_def
  by (simp add: find_snoc_new)

lemma lots_simps:
  "lots (pending (put_lot l s)) = map (\<lambda>k. if lot_id k = lot_id l then l else k) (lots (pending s))"
  "lots (pending (delete_lot l s)) = filter (\<lambda>k. lot_id k \<noteq> lot_id l) (lots (pending s))"
  "lots (pending (add_lot aid symbol q c s)) = lots (pending s) @
        [\<lparr>lot_id = next_id (map lot_id (lots (pending s))), lot_account_id = aid,
          lot_symbol = symbol, lot_qty = q, lot_avg_cost = c\<rparr>]"
  by (simp_all add: put_lot_def delete_lot_def add_lot_def)

text \<open>The three outcomes of a BUY and of a SELL, as equations.\<close>

lemma buy_cases:
  assumes "find_account (pending s) account_name = Some acct"
    and "last_price symbol = Some px"
    and "upper side = ''BUY''"
  shows "place_market_order cfg last_price s account_name symbol side qty nt =
    (let fill = px + px * (slippage_bps cfg / 10000);
         total = fill * qty + commistion_per_trade cfg;
         acct1 = acct\<lparr>acct_cash := acct_cash acct - total\<rparr>
     in if acct_cash acct < total then (s, Inl InsufficientFunds)
        else case find_lot (pending s) (acct_id acct) symbol of
               Some lot \<Rightarrow>
                 if lot_qty lot + qty = 0 then (put_account acct1 s, Inl ZeroDivisionError)
                 else record_trade cfg
                        (put_lot (lot\<lparr>lot_avg_cost :=
                             (lot_avg_cost lot * lot_qty lot + fill * qty) / (lot_qty lot + qty),
                           lot_qty := lot_qty lot + qty\<rparr>) (put_account acct1 s))
                        acct1 symbol ''BUY'' qty px fill nt
             | None \<Rightarrow>
                 record_trade cfg (add_lot (acct_id acct) symbol qty fill (put_account acct1 s))
                   acct1 symbol ''BUY'' qty px fill nt)"
  using assms
  by (simp add: place_market_order_def apply_slippage_def Let_def find_lot_other
        split: option.splits)

lemma sell_cases:
  assumes "find_account (pending s) account_name = Some acct"
    and "last_price symbol = Some px"
    and "upper side = ''SELL''"
  shows "place_market_order cfg last_price s account_name symbol side qty nt =
    (let fill = px - px * (slippage_bps cfg / 10000);
         acct1 = acct\<lparr>acct_cash := acct_cash acct + (fill * qty - commistion_per_trade cfg)\<rparr>
     in case find_lot (pending s) (acct_id acct) symbol of
          None \<Rightarrow> (s, Inl InsufficientShares)
        | Some lot \<Rightarrow>
            if lot_qty lot < qty then (s, Inl InsufficientShares)
            else record_trade cfg
                   (if lot_qty lot = qty
                    then delete_lot (lot\<lparr>lot_qty := 0\<rparr>)
                           (put_lot (lot\<lparr>lot_qty := 0\<rparr>) (put_account acct1 s))
                    else put_lot (lot\<lparr>lot_qty := lot_qty lot - qty\<rparr>) (put_account acct1 s))
                   acct1 symbol ''SELL'' qty px fill nt)"
  using assms
  by (auto simp: place_market_order_def apply_slippage_def Let_def
        split: option.splits)

text \<open>
  Rounding to a double: the binade of a value is found from the powers of two around
  it, and a value that is not negative is not rounded below zero.
\<close>

lemma binade_eq:
  assumes "2 powi e \<le> \<bar>x\<bar>" and "\<bar>x\<bar> < 2 powi (e + 1)"
  shows "binade x = e"
proof -
  have pos: "0 < \<bar>x\<bar>"
    using assms(1) by (smt (verit) zero_less_power_int)
  have a: "2 powr real_of_int e = (2::real) powi e"
    by (rule powr_real_of_int') simp_all
  have b: "2 powr real_of_int (e + 1) = (2::real) powi (e + 1)"
    by (rule powr_real_of_int') simp_all
  have "(\<lfloor>log 2 \<bar>x\<bar>\<rfloor> = e) =
      (2 powr real_of_int e \<le> \<bar>x\<bar> \<and> \<bar>x\<bar> < 2 powr real_of_int (e + 1))"
    using pos by (intro floor_log_eq_powr_iff) simp_all
  with assms show ?thesis
    unfolding binade_def a b by blast
qed

lemma round_double_nonneg: "0 \<le> x \<Longrightarrow> 0 \<le> round_double x"
  by (auto simp: round_double_def round_even_def Let_def intro!: mult_nonneg_nonneg)

text \<open>The operations of the two orders evaluated below, rounded as the machine does.\<close>

lemma fdiv_bps: "fdiv 10 10000 = 1152921504606847 / 1152921504606846976"
proof -
  have "binade (1 / 1000) = - 10"
    by (rule binade_eq) (simp_all add: power_int_minus)
  then show ?thesis
    by (simp add: fdiv_def round_double_def round_even_def Let_def power_int_minus)
qed

lemma fmul_slip_145:
  "fmul 145 (1152921504606847 / 1152921504606846976) = 5224175567749775 / 36028797018963968"
proof -
  have "binade (167173618167992815 / 1152921504606846976) = - 3"
    by (rule binade_eq) (simp_all add: power_int_minus)
  then show ?thesis
    by (simp add: fmul_def round_double_def round_even_def Let_def power_int_minus)
qed

lemma fadd_fill_145:
  "fadd 145 (5224175567749775 / 36028797018963968) = 5106835686833521 / 35184372088832"
proof -
  have "binade (5229399743317525135 / 36028797018963968) = 7"
    by (rule binade_eq) simp_all
  then show ?thesis
    by (simp add: fadd_def round_double_def round_even_def Let_def power_int_minus)
qed

lemma fmul_cost_145:
  "fmul (5106835686833521 / 35184372088832) 50 = 7979430760677377 / 1099511627776"
proof -
  have "binade (127670892170838025 / 17592186044416) = 12"
    by (rule binade_eq) simp_all
  then show ?thesis
    by (simp add: fmul_def round_double_def round_even_def Let_def power_int_minus)
qed

lemma fadd_total_145:
  "fadd (7979430760677377 / 1099511627776) (1 / 2) = 7979980516491265 / 1099511627776"
proof -
  have "binade (7979980516491265 / 1099511627776) = 12"
    by (rule binade_eq) simp_all
  then show ?thesis
    by (simp add: fadd_def round_double_def round_even_def Let_def power_int_minus)
qed

lemma fmul_slip_100:
  "fmul 100 (1152921504606847 / 1152921504606846976) = 3602879701896397 / 36028797018963968"
proof -
  have "binade (28823037615171175 / 288230376151711744) = - 4"
    by (rule binade_eq) (simp_all add: power_int_minus)
  then show ?thesis
    by (simp add: fmul_def round_double_def round_even_def Let_def power_int_minus)
qed

lemma fadd_fill_100:
  "fadd 100 (3602879701896397 / 36028797018963968) = 3521955646092083 / 35184372088832"
proof -
  have "binade (3606482581598293197 / 36028797018963968) = 6"
    by (rule binade_eq) simp_all
  then show ?thesis
    by (simp add: fadd_def round_double_def round_even_def Let_def power_int_minus)
qed

lemma fmul_cost_100: "fmul (3521955646092083 / 35184372088832) 10 = 1001"
proof -
  have "binade (17609778230460415 / 17592186044416) = 9"
    by (rule binade_eq) simp_all
  then show ?thesis
    by (simp add: fmul_def round_double_def round_even_def Let_def power_int_minus)
qed

lemma fadd_total_100: "fadd 1001 (1 / 2) = 2003 / 2"
proof -
  have "binade (2003 / 2) = 9"
    by (rule binade_eq) simp_all
  then show ?thesis
    by (simp add: fadd_def round_double_def round_even_def Let_def power_int_minus)
qed

lemma fsub_cash_100: "fsub 5000 (2003 / 2) = 7997 / 2"
proof -
  have "binade (7997 / 2) = 11"
    by (rule binade_eq) simp_all
  then show ?thesis
    by (simp add: fsub_def round_double_def round_even_def Let_def power_int_minus)
qed

lemma buy_cases_fp:
  assumes "find_account (pending s) account_name = Some acct"
    and "last_price symbol = Some px"
    and "upper side = ''BUY''"
  shows "place_market_order_fp cfg last_price s account_name symbol side qty nt =
    (let fill = fadd px (fmul px (fdiv (slippage_bps cfg) 10000));
         total = fadd (fmul fill qty) (commistion_per_trade cfg);
         acct1 = acct\<lparr>acct_cash := fsub (acct_cash acct) total\<rparr>
     in if acct_cash acct < total then (s, Inl InsufficientFunds)
        else case find_lot (pending s) (acct_id acct) symbol of
               Some lot \<Rightarrow>
                 if fadd (lot_qty lot) qty = 0
                 then (put_account acct1 s, Inl ZeroDivisionError)
                 else record_trade cfg
                        (put_lot (lot\<lparr>lot_avg_cost :=
                             fdiv (fadd (fmul (lot_avg_cost lot) (lot_qty lot)) (fmul fill qty))
                                  (fadd (lot_qty lot) qty),
                           lot_qty := fadd (lot_qty lot) qty\<rparr>) (put_account acct1 s))
                        acct1 symbol ''BUY'' qty px fill nt
             | None \<Rightarrow>
                 record_trade cfg (add_lot (acct_id acct) symbol qty fill (put_account acct1 s))
                   acct1 symbol ''BUY'' qty px fill nt)"
  using assms
  by (simp add: place_market_order_fp_def apply_slippage_fp_def Let_def find_lot_other
        split: option.splits)

text \<open>
  C2. A BUY on an existing account with an available quote, in the arithmetic of the
  machine. With the fill price \<open>fadd px (fmul px (fdiv bps 10000))\<close> and the debit
  \<open>fadd (fmul fill qty) commission\<close> that the code computes, the order fails with
  \<open>InsufficientFunds\<close> exactly when the account's cash is less than the debit. When it
  succeeds the trade carries that fill price, the account's cash is the old cash minus
  the debit, and it is not negative.
\<close>

theorem buy_insufficient_funds:
  assumes "find_account (pending s) account_name = Some acct"
    and "last_price symbol = Some px"
    and "upper side = ''BUY''"
    and "fill = fadd px (fmul px (fdiv (slippage_bps cfg) 10000))"
    and "debit = fadd (fmul fill qty) (commistion_per_trade cfg)"
  shows "(snd (place_market_order_fp cfg last_price s account_name symbol side qty nt)
            = Inl InsufficientFunds \<longleftrightarrow> acct_cash acct < debit) \<and>
         (\<forall>s' tr. place_market_order_fp cfg last_price s account_name symbol side qty nt
                     = (s', Inr tr) \<longrightarrow>
            fill_price tr = fill \<and>
            find_account (committed s') account_name
              = Some (acct\<lparr>acct_cash := fsub (acct_cash acct) debit\<rparr>) \<and>
            0 \<le> fsub (acct_cash acct) debit)"
proof -
  have nm: "acct_name acct = account_name"
    using assms(1) by (auto simp: find_account_def dest: find_in_set)
  have nn: "\<not> acct_cash acct < debit \<Longrightarrow> 0 \<le> fsub (acct_cash acct) debit"
    unfolding fsub_def by (rule round_double_nonneg) simp
  show ?thesis
    unfolding buy_cases_fp [where last_price = last_price and symbol = symbol, OF assms(1-3)]
    using assms(1,4,5) nm nn
    by (auto simp: Let_def record_trade_def find_account_other find_account_put
          split: option.splits)
qed

theorem buy_insufficient_funds_witness:
  "snd (place_market_order_fp settings (\<lambda>_. Some 145)
          (fst (ensure_account settings (get_session empty_db) ''core'' (Some (29031 / 4))))
          ''core'' ''AAPL'' ''BUY'' 50 []) = Inl InsufficientFunds \<and>
   find_account (committed (fst (place_market_order_fp settings (\<lambda>_. Some 100)
       (get_session core_db) ''core'' ''AAPL'' ''BUY'' 10 []))) ''core'' =
     Some \<lparr>acct_id = 1, acct_name = ''core'', acct_cash = 7997 / 2\<rparr>"
proof -
  let ?s = "fst (ensure_account settings (get_session empty_db) ''core'' (Some (29031 / 4)))"
  have acct1: "find_account (pending ?s) ''core'' =
      Some \<lparr>acct_id = 1, acct_name = ''core'', acct_cash = 29031 / 4\<rparr>"
    by (simp add: ensure_account_def find_account_def get_session_def empty_db_def
          add_account_def commit_def next_id_def Let_def)
  have px1: "(\<lambda>_::string. Some (145::real)) ''AAPL'' = Some 145"
    by simp
  have fill1: "(5106835686833521 / 35184372088832 :: real) =
      fadd 145 (fmul 145 (fdiv (slippage_bps settings) 10000))"
    by (simp add: settings_def fdiv_bps fmul_slip_145 fadd_fill_145)
  have debit1: "(7979980516491265 / 1099511627776 :: real) =
      fadd (fmul (5106835686833521 / 35184372088832) 50) (commistion_per_trade settings)"
    by (simp add: settings_def fmul_cost_145 fadd_total_145)
  have "snd (place_market_order_fp settings (\<lambda>_. Some 145) ?s
          ''core'' ''AAPL'' ''BUY'' 50 []) = Inl InsufficientFunds"
    using buy_insufficient_funds [where last_price = "\<lambda>_. Some 145" and symbol = "''AAPL''"
        and qty = 50 and nt = "[]" and cfg = settings, OF acct1 px1 upper_BUY fill1 debit1]
    by simp
  moreover
  have acct2: "find_account (pending (get_session core_db)) ''core'' =
      Some \<lparr>acct_id = 1, acct_name = ''core'', acct_cash = 5000\<rparr>"
    by (simp add: find_account_def get_session_def core_db_def)
  have px2: "(\<lambda>_::string. Some (100::real)) ''AAPL'' = Some 100"
    by simp
  have fill2: "(3521955646092083 / 35184372088832 :: real) =
      fadd 100 (fmul 100 (fdiv (slippage_bps settings) 10000))"
    by (simp add: settings_def fdiv_bps fmul_slip_100 fadd_fill_100)
  have debit2: "(2003 / 2 :: real) =
      fadd (fmul (3521955646092083 / 35184372088832) 10) (commistion_per_trade settings)"
    by (simp add: settings_def fmul_cost_100 fadd_total_100)
  have ok: "\<exists>tr. snd (place_market_order_fp settings (\<lambda>_. Some 100) (get_session core_db)
       ''core'' ''AAPL'' ''BUY'' 10 []) = Inr tr"
    unfolding buy_cases_fp [where last_price = "\<lambda>_. Some 100" and symbol = "''AAPL''",
        OF acct2 px2 upper_BUY]
    by (simp add: Let_def fill2 [symmetric] debit2 [symmetric] record_trade_def find_lot_def
          get_session_def core_db_def)
  have "find_account (committed (fst (place_market_order_fp settings (\<lambda>_. Some 100)
       (get_session core_db) ''core'' ''AAPL'' ''BUY'' 10 []))) ''core'' =
     Some \<lparr>acct_id = 1, acct_name = ''core'', acct_cash = 7997 / 2\<rparr>"
    using buy_insufficient_funds [where last_price = "\<lambda>_. Some 100" and symbol = "''AAPL''"
        and qty = 10 and nt = "[]" and cfg = settings, OF acct2 px2 upper_BUY fill2 debit2,
        THEN conjunct2] ok
    by (auto simp: fsub_cash_100 prod_eq_iff)
  ultimately show ?thesis by simp
qed

text \<open>
  C3. For an existing account and an available quote, a SELL fails with
  \<open>InsufficientShares\<close> and leaves the session, hence the lot, as it was when the
  account holds no lot of the symbol or holds less than the requested quantity. Otherwise
  it succeeds: when the remaining quantity is zero no row with the lot's key is left, and
  when it is not zero the lot is kept with its quantity reduced by exactly the requested
  quantity and every other field, the average cost among them, unchanged.
\<close>

theorem sell_shares:
  assumes "find_account (pending s) account_name = Some acct"
    and "last_price symbol = Some px"
    and "upper side = ''SELL''"
  shows "((find_lot (pending s) (acct_id acct) symbol = None \<or>
           (\<exists>lot. find_lot (pending s) (acct_id acct) symbol = Some lot \<and> lot_qty lot < qty)) \<longrightarrow>
            place_market_order cfg last_price s account_name symbol side qty nt
              = (s, Inl InsufficientShares)) \<and>
         (\<forall>lot. find_lot (pending s) (acct_id acct) symbol = Some lot \<and> qty \<le> lot_qty lot \<longrightarrow>
            (\<exists>s' tr. place_market_order cfg last_price s account_name symbol side qty nt
                        = (s', Inr tr) \<and>
               (lot_qty lot - qty = 0 \<longrightarrow>
                  (\<forall>l \<in> set (lots (committed s')). lot_id l \<noteq> lot_id lot)) \<and>
               (lot_qty lot - qty \<noteq> 0 \<longrightarrow>
                  find_lot (committed s') (acct_id acct) symbol
                    = Some (lot\<lparr>lot_qty := lot_qty lot - qty\<rparr>))))"
proof (intro conjI allI impI)
  assume "find_lot (pending s) (acct_id acct) symbol = None \<or>
           (\<exists>lot. find_lot (pending s) (acct_id acct) symbol = Some lot \<and> lot_qty lot < qty)"
  then show "place_market_order cfg last_price s account_name symbol side qty nt
              = (s, Inl InsufficientShares)"
    unfolding sell_cases [where last_price = last_price and symbol = symbol, OF assms]
    by (auto simp: Let_def)
next
  fix lot
  assume h: "find_lot (pending s) (acct_id acct) symbol = Some lot \<and> qty \<le> lot_qty lot"
  then have key: "lot_account_id lot = acct_id acct" "lot_symbol lot = symbol"
    by (auto simp: find_lot_def dest: find_in_set)
  show "\<exists>s' tr. place_market_order cfg last_price s account_name symbol side qty nt
                        = (s', Inr tr) \<and>
               (lot_qty lot - qty = 0 \<longrightarrow>
                  (\<forall>l \<in> set (lots (committed s')). lot_id l \<noteq> lot_id lot)) \<and>
               (lot_qty lot - qty \<noteq> 0 \<longrightarrow>
                  find_lot (committed s') (acct_id acct) symbol
                    = Some (lot\<lparr>lot_qty := lot_qty lot - qty\<rparr>))"
    unfolding sell_cases [where last_price = last_price and symbol = symbol, OF assms]
    using h key
    by (auto simp: Let_def record_trade_def session_simps lots_simps find_lot_other
          find_lot_put)
qed

theorem sell_shares_witness:
  "fst (place_market_order settings (\<lambda>_. Some 100) (get_session core_db)
          ''core'' ''AAPL'' ''SELL'' 1 []) = get_session core_db \<and>
   snd (place_market_order settings (\<lambda>_. Some 100) (get_session core_db)
          ''core'' ''AAPL'' ''SELL'' 1 []) = Inl InsufficientShares"
proof -
  have acct: "find_account (pending (get_session core_db)) ''core'' =
      Some \<lparr>acct_id = 1, acct_name = ''core'', acct_cash = 5000\<rparr>"
    by (simp add: find_account_def get_session_def core_db_def)
  have px: "(\<lambda>_::string. Some (100::real)) ''AAPL'' = Some 100"
    by simp
  have none: "find_lot (pending (get_session core_db))
      (acct_id \<lparr>acct_id = 1, acct_name = ''core'', acct_cash = 5000\<rparr>) ''AAPL'' = None"
    by (simp add: find_lot_def get_session_def core_db_def)
  show ?thesis
    using sell_shares [where last_price = "\<lambda>_. Some 100" and symbol = "''AAPL''"
        and qty = 1 and nt = "[]" and cfg = settings, OF acct px upper_SELL] none
    by simp
qed

text \<open>
  C4. A BUY that the account can pay for, into an existing lot, succeeds whenever the
  merged quantity is not zero (as it is for positive quantities) and leaves the lot with
  the quantity \<open>old_qty + qty\<close> and the average cost
  \<open>(old_avg * old_qty + fill * qty) / (old_qty + qty)\<close>. With no lot of the symbol it
  appends a new lot of quantity \<open>qty\<close> and average cost \<open>fill\<close>.
\<close>

theorem buy_merges_lot:
  assumes "find_account (pending s) account_name = Some acct"
    and "last_price symbol = Some px"
    and "upper side = ''BUY''"
    and "fill = px * (1 + slippage_bps cfg / 10000)"
    and "fill * qty + commistion_per_trade cfg \<le> acct_cash acct"
  shows "(\<forall>lot. find_lot (pending s) (acct_id acct) symbol = Some lot \<and> lot_qty lot + qty \<noteq> 0 \<longrightarrow>
           (\<exists>s' tr. place_market_order cfg last_price s account_name symbol side qty nt
                       = (s', Inr tr) \<and>
              find_lot (committed s') (acct_id acct) symbol =
                Some (lot\<lparr>lot_avg_cost :=
                        (lot_avg_cost lot * lot_qty lot + fill * qty) / (lot_qty lot + qty),
                      lot_qty := lot_qty lot + qty\<rparr>))) \<and>
         (find_lot (pending s) (acct_id acct) symbol = None \<longrightarrow>
           (\<exists>s' tr l. place_market_order cfg last_price s account_name symbol side qty nt
                       = (s', Inr tr) \<and>
              find_lot (committed s') (acct_id acct) symbol = Some l \<and>
              lot_qty l = qty \<and> lot_avg_cost l = fill \<and>
              lots (committed s') = lots (pending s) @ [l]))"
proof -
  have f: "px + px * (slippage_bps cfg / 10000) = fill"
    using assms(4) by (simp add: algebra_simps)
  show ?thesis
  proof (intro conjI allI impI)
    fix lot
    assume h: "find_lot (pending s) (acct_id acct) symbol = Some lot \<and> lot_qty lot + qty \<noteq> 0"
    then have key: "lot_account_id lot = acct_id acct" "lot_symbol lot = symbol"
      by (auto simp: find_lot_def dest: find_in_set)
    show "\<exists>s' tr. place_market_order cfg last_price s account_name symbol side qty nt
                       = (s', Inr tr) \<and>
              find_lot (committed s') (acct_id acct) symbol =
                Some (lot\<lparr>lot_avg_cost :=
                        (lot_avg_cost lot * lot_qty lot + fill * qty) / (lot_qty lot + qty),
                      lot_qty := lot_qty lot + qty\<rparr>)"
      unfolding buy_cases [where last_price = last_price and symbol = symbol, OF assms(1-3)] f
      using h key assms(5)
      by (auto simp: Let_def record_trade_def find_lot_other find_lot_put)
  next
    assume h: "find_lot (pending s) (acct_id acct) symbol = None"
    show "\<exists>s' tr l. place_market_order cfg last_price s account_name symbol side qty nt
                       = (s', Inr tr) \<and>
              find_lot (committed s') (acct_id acct) symbol = Some l \<and>
              lot_qty l = qty \<and> lot_avg_cost l = fill \<and>
              lots (committed s') = lots (pending s) @ [l]"
      unfolding buy_cases [where last_price = last_price and symbol = symbol, OF assms(1-3)] f
      using h assms(5)
      by (auto simp: Let_def record_trade_def find_lot_other find_lot_add session_simps
            lots_simps)
  qed
qed

theorem buy_merges_lot_witness:
  "find_lot (committed (fst (place_market_order settings (\<lambda>_. Some 200)
       (get_session holding_db) ''core'' ''AAPL'' ''BUY'' 10 []))) 1 ''AAPL'' =
     Some \<lparr>lot_id = 1, lot_account_id = 1, lot_symbol = ''AAPL'', lot_qty = 20,
           lot_avg_cost = 3003 / 20\<rparr>"
proof -
  have acct: "find_account (pending (get_session holding_db)) ''core'' =
      Some \<lparr>acct_id = 1, acct_name = ''core'', acct_cash = 7997 / 2\<rparr>"
    by (simp add: find_account_def get_session_def holding_db_def)
  have px: "(\<lambda>_::string. Some (200::real)) ''AAPL'' = Some 200"
    by simp
  have fill: "(1001 / 5 :: real) = 200 * (1 + slippage_bps settings / 10000)"
    by (simp add: settings_def)
  have funds: "(1001 / 5 :: real) * 10 + commistion_per_trade settings
      \<le> acct_cash \<lparr>acct_id = 1, acct_name = ''core'', acct_cash = 7997 / 2\<rparr>"
    by (simp add: settings_def)
  have lot: "find_lot (pending (get_session holding_db))
      (acct_id \<lparr>acct_id = 1, acct_name = ''core'', acct_cash = 7997 / 2\<rparr>) ''AAPL'' =
      Some \<lparr>lot_id = 1, lot_account_id = 1, lot_symbol = ''AAPL'', lot_qty = 10,
               lot_avg_cost = 1001 / 10\<rparr>"
    by (simp add: find_lot_def get_session_def holding_db_def)
  from buy_merges_lot [where last_price = "\<lambda>_. Some 200" and symbol = "''AAPL''"
        and qty = 10 and nt = "[]" and cfg = settings, OF acct px upper_BUY fill funds,
        THEN conjunct1, rule_format, OF conjI [OF lot]]
  show ?thesis
    by auto
qed

lemma replace_twice:
  "k a' = k a \<Longrightarrow>
   map (\<lambda>b. if k b = k a then a' else b) (map (\<lambda>b. if k b = k a then a' else b) xs) =
   map (\<lambda>b. if k b = k a then a' else b) xs"
  by (induction xs) auto

lemma filter_replace:
  "k a' = k a \<Longrightarrow>
   filter (\<lambda>b. k b \<noteq> k a) (map (\<lambda>b. if k b = k a then a' else b) xs) =
   filter (\<lambda>b. k b \<noteq> k a) xs"
  by (induction xs) auto

text \<open>
  C5. \<open>place_market_order\<close> is atomic. Whenever it fails the stored ledger is the one
  before the call, and for each of the failures \<open>NotFound\<close>, \<open>NoPriceData\<close>,
  \<open>InsufficientFunds\<close>, \<open>InsufficientShares\<close> and \<open>InvalidSide\<close> the whole session
  (cash, lots and trade history, pending changes included) is untouched. When it succeeds
  nothing is left pending, and the stored ledger is the one before the call with the three
  changes made together: the account's cash debited or credited, the lot merged, created,
  reduced or deleted, and exactly the returned trade appended, which stores the requested
  price, the fill price, the commission and the slippage rate.
\<close>

theorem place_market_order_atomic:
  assumes "place_market_order cfg last_price s account_name symbol side qty nt = (s', r)"
  shows
  "(\<forall>e. r = Inl e \<longrightarrow>
      committed s' = committed s \<and>
      (e \<in> {NotFound, NoPriceData, InsufficientFunds, InsufficientShares, InvalidSide} \<longrightarrow>
         s' = s)) \<and>
   (\<forall>tr. r = Inr tr \<longrightarrow>
      (\<exists>acct px.
         find_account (pending s) account_name = Some acct \<and> last_price symbol = Some px \<and>
         tr = \<lparr>trade_id = next_id (map trade_id (trades (pending s))),
                trade_account_id = acct_id acct, trade_symbol = symbol,
                trade_side = upper side, trade_qty = qty, requested_price = px,
                fill_price = apply_slippage px side (slippage_bps cfg),
                commission = commistion_per_trade cfg,
                trade_slippage_bps = slippage_bps cfg, trade_note = nt\<rparr> \<and>
         pending s' = committed s' \<and>
         committed s' = (pending s)
           \<lparr>accounts :=
              map (\<lambda>b. if acct_id b = acct_id acct
                        then acct\<lparr>acct_cash :=
                               (if upper side = ''BUY''
                                then acct_cash acct - (fill_price tr * qty + commission tr)
                                else acct_cash acct + (fill_price tr * qty - commission tr))\<rparr>
                        else b)
                (accounts (pending s)),
            lots :=
              (case find_lot (pending s) (acct_id acct) symbol of
                 None \<Rightarrow>
                   lots (pending s) @
                     [\<lparr>lot_id = next_id (map lot_id (lots (pending s))),
                       lot_account_id = acct_id acct, lot_symbol = symbol, lot_qty = qty,
                       lot_avg_cost = fill_price tr\<rparr>]
               | Some lot \<Rightarrow>
                   if upper side = ''BUY''
                   then map (\<lambda>k. if lot_id k = lot_id lot
                                  then lot\<lparr>lot_avg_cost :=
                                         (lot_avg_cost lot * lot_qty lot + fill_price tr * qty)
                                           / (lot_qty lot + qty),
                                       lot_qty := lot_qty lot + qty\<rparr>
                                  else k)
                          (lots (pending s))
                   else if lot_qty lot = qty
                   then filter (\<lambda>k. lot_id k \<noteq> lot_id lot) (lots (pending s))
                   else map (\<lambda>k. if lot_id k = lot_id lot
                                  then lot\<lparr>lot_qty := lot_qty lot - qty\<rparr> else k)
                          (lots (pending s))),
            trades := trades (pending s) @ [tr]\<rparr>))"
proof (cases "find_account (pending s) account_name")
  case None
  then show ?thesis
    using assms by (auto simp: place_market_order_def)
next
  case (Some acct)
  note acct = this
  show ?thesis
  proof (cases "last_price symbol")
    case None
    then show ?thesis
      using assms acct by (auto simp: place_market_order_def)
  next
    case (Some px)
    consider (buy) "upper side = ''BUY''" | (sell) "upper side = ''SELL''"
      | (other) "upper side \<noteq> ''BUY''" "upper side \<noteq> ''SELL''"
      by blast
    then show ?thesis
    proof cases
      case buy
      have f: "apply_slippage px side (slippage_bps cfg) = px + px * (slippage_bps cfg / 10000)"
        using buy by (simp add: apply_slippage_def)
      show ?thesis
        using assms acct Some buy
        unfolding buy_cases [where last_price = last_price and symbol = symbol, OF acct Some buy]
        by (auto simp: Let_def f record_trade_def commit_def put_account_def add_trade_def
              put_lot_def add_lot_def replace_twice [where k = acct_id]
              split: option.splits if_splits)
    next
      case sell
      have f: "apply_slippage px side (slippage_bps cfg) = px - px * (slippage_bps cfg / 10000)"
        using sell by (simp add: apply_slippage_def)
      have nb: "upper side \<noteq> ''BUY''"
        using sell by simp
      show ?thesis
        using assms acct Some sell nb
        unfolding sell_cases [where last_price = last_price and symbol = symbol, OF acct Some sell]
        by (auto simp: Let_def f record_trade_def commit_def put_account_def add_trade_def
              put_lot_def delete_lot_def replace_twice [where k = acct_id]
              filter_replace [where k = lot_id]
              split: option.splits if_splits)
    next
      case other
      then show ?thesis
        using assms acct Some by (auto simp: place_market_order_def Let_def)
    qed
  qed
qed

theorem place_market_order_atomic_witness:
  "committed (fst (place_market_order settings (\<lambda>_. Some 100) (get_session core_db)
          ''core'' ''AAPL'' ''BUY'' 10 [])) = holding_db \<and>
   fst (place_market_order settings (\<lambda>_. None) (get_session core_db)
          ''core'' ''AAPL'' ''BUY'' 10 []) = get_session core_db"
proof -
  let ?ok = "place_market_order settings (\<lambda>_. Some 100) (get_session core_db)
          ''core'' ''AAPL'' ''BUY'' 10 []"
  let ?ko = "place_market_order settings (\<lambda>_. None) (get_session core_db)
          ''core'' ''AAPL'' ''BUY'' 10 []"
  have ok: "\<exists>tr. snd ?ok = Inr tr"
    by (simp add: scenario_run Let_def)
  have ko: "snd ?ko = Inl NoPriceData"
    by (simp add: place_market_order_def find_account_def get_session_def core_db_def)
  have acct: "find_account (pending (get_session core_db)) ''core'' =
      Some \<lparr>acct_id = 1, acct_name = ''core'', acct_cash = 5000\<rparr>"
    by (simp add: find_account_def get_session_def core_db_def)
  have none: "find_lot (pending (get_session core_db)) 1 ''AAPL'' = None"
    by (simp add: find_lot_def get_session_def core_db_def)
  have "committed (fst ?ok) = holding_db"
    using place_market_order_atomic [of settings "\<lambda>_. Some 100" "get_session core_db"
        "''core''" "''AAPL''" "''BUY''" 10 "[]" "fst ?ok" "snd ?ok"] ok acct none
    by (auto simp: upper_BUY apply_slippage_def settings_def holding_db_def get_session_def
          core_db_def next_id_def)
  moreover have "fst ?ko = get_session core_db"
    using place_market_order_atomic [of settings "\<lambda>_. None" "get_session core_db"
        "''core''" "''AAPL''" "''BUY''" 10 "[]" "fst ?ko" "snd ?ko"] ko
    by (simp add: prod_eq_iff)
  ultimately show ?thesis by simp
qed

text \<open>
  C9, as amended. The side is compared after \<open>str.upper\<close>: for an existing account and
  an available quote, every side argument whose upper-case form is neither \<open>BUY\<close> nor
  \<open>SELL\<close> makes \<open>place_market_order\<close> fail with \<open>InvalidSide\<close> and leaves the
  session as it was.
\<close>

theorem invalid_side:
  assumes "find_account (pending s) account_name = Some acct"
    and "last_price symbol = Some px"
    and "upper side \<noteq> ''BUY''"
    and "upper side \<noteq> ''SELL''"
  shows "place_market_order cfg last_price s account_name symbol side qty nt
           = (s, Inl InvalidSide)"
  using assms
  by (simp add: place_market_order_def Let_def)

theorem invalid_side_witness:
  "place_market_order settings (\<lambda>_. Some 100) (get_session core_db)
     ''core'' ''AAPL'' ''HOLD'' 10 [] = (get_session core_db, Inl InvalidSide)"
proof -
  have acct: "find_account (pending (get_session core_db)) ''core'' =
      Some \<lparr>acct_id = 1, acct_name = ''core'', acct_cash = 5000\<rparr>"
    by (simp add: find_account_def get_session_def core_db_def)
  have px: "(\<lambda>_::string. Some (100::real)) ''AAPL'' = Some 100"
    by simp
  have a: "upper ''HOLD'' \<noteq> ''BUY''" and b: "upper ''HOLD'' \<noteq> ''SELL''"
    by (simp_all add: upper_HOLD)
  show ?thesis
    using invalid_side [where last_price = "\<lambda>_. Some 100" and symbol = "''AAPL''", OF acct px a b]
    by simp
qed

text \<open>
  C9 as stated fails: the side argument \<open>buy\<close> is neither the string \<open>BUY\<close> nor the
  string \<open>SELL\<close>, yet the order is executed and the ledger changes.
\<close>

theorem invalid_side_counterexample:
  "''buy'' \<noteq> ''BUY'' \<and> ''buy'' \<noteq> ''SELL'' \<and>
   place_market_order settings (\<lambda>_. Some 100) (get_session core_db)
     ''core'' ''AAPL'' ''buy'' 10 [] =
     (\<lparr>committed = holding_db, pending = holding_db\<rparr>,
      Inr \<lparr>trade_id = 1, trade_account_id = 1, trade_symbol = ''AAPL'',
            trade_side = ''BUY'', trade_qty = 10, requested_price = 100,
            fill_price = 1001 / 10, commission = 1 / 2, trade_slippage_bps = 10,
            trade_note = []\<rparr>)"
  by (simp add: place_market_order_def settings_def core_db_def get_session_def holding_db_def
        find_account_def find_lot_def apply_slippage_def upper_buy put_account_def
        record_trade_def add_lot_def add_trade_def commit_def next_id_def Let_def)

text \<open>
  C10. \<open>ensure_account\<close> is idempotent. When an account of that name exists it is
  returned and the session is unchanged, whatever the cash argument; otherwise an account
  with the given cash, or the configured default when none is given, is appended and
  committed. A second call with the same name, whatever its cash argument, returns the
  same account and changes nothing.
\<close>

theorem ensure_account_idempotent:
  "(\<forall>acct. find_account (pending s) name = Some acct \<longrightarrow>
      ensure_account cfg s name cash = (s, acct)) \<and>
   (find_account (pending s) name = None \<longrightarrow>
      acct_name (snd (ensure_account cfg s name cash)) = name \<and>
      acct_cash (snd (ensure_account cfg s name cash))
        = (case cash of Some c \<Rightarrow> c | None \<Rightarrow> default_cash cfg) \<and>
      accounts (committed (fst (ensure_account cfg s name cash)))
        = accounts (pending s) @ [snd (ensure_account cfg s name cash)] \<and>
      pending (fst (ensure_account cfg s name cash))
        = committed (fst (ensure_account cfg s name cash))) \<and>
   ensure_account cfg' (fst (ensure_account cfg s name cash)) name cash'
     = ensure_account cfg s name cash"
proof (intro conjI allI impI)
  fix acct
  assume "find_account (pending s) name = Some acct"
  then show "ensure_account cfg s name cash = (s, acct)"
    by (simp add: ensure_account_def)
next
  assume n: "find_account (pending s) name = None"
  then show "acct_name (snd (ensure_account cfg s name cash)) = name"
    and "acct_cash (snd (ensure_account cfg s name cash))
        = (case cash of Some c \<Rightarrow> c | None \<Rightarrow> default_cash cfg)"
    and "accounts (committed (fst (ensure_account cfg s name cash)))
        = accounts (pending s) @ [snd (ensure_account cfg s name cash)]"
    and "pending (fst (ensure_account cfg s name cash))
        = committed (fst (ensure_account cfg s name cash))"
    by (simp_all add: ensure_account_def Let_def commit_def add_account_def)
next
  show "ensure_account cfg' (fst (ensure_account cfg s name cash)) name cash'
     = ensure_account cfg s name cash"
  proof (cases "find_account (pending s) name")
    case (Some acct)
    then show ?thesis by (simp add: ensure_account_def)
  next
    case None
    then show ?thesis
      by (simp add: ensure_account_def Let_def commit_def add_account_def find_account_def
            find_snoc_new)
  qed
qed

theorem ensure_account_idempotent_witness:
  "ensure_account settings (get_session core_db) ''core'' (Some 1) =
     (get_session core_db, \<lparr>acct_id = 1, acct_name = ''core'', acct_cash = 5000\<rparr>) \<and>
   acct_cash (snd (ensure_account settings (get_session core_db) ''risk'' None)) = 5000"
proof -
  have acct: "find_account (pending (get_session core_db)) ''core'' =
      Some \<lparr>acct_id = 1, acct_name = ''core'', acct_cash = 5000\<rparr>"
    by (simp add: find_account_def get_session_def core_db_def)
  have none: "find_account (pending (get_session core_db)) ''risk'' = None"
    by (simp add: find_account_def get_session_def core_db_def)
  show ?thesis
    using ensure_account_idempotent [of "get_session core_db" "''core''" settings "Some 1"]
      ensure_account_idempotent [of "get_session core_db" "''risk''" settings None]
      acct none
    by (simp add: settings_def)
qed

section \<open>Properties of runs, of the screener and of the comparison\<close>

lemma order_keeps_positive:
  assumes "lots_positive d" and "0 < qty"
  shows "lots_positive (committed (fst (place_market_order cfg last_price (get_session d)
           account_name symbol side qty nt)))"
proof (cases "find_account d account_name")
  case None
  then show ?thesis
    using assms(1) by (simp add: place_market_order_def get_session_def)
next
  case (Some acct)
  note acct = this
  show ?thesis
  proof (cases "last_price symbol")
    case None
    then show ?thesis
      using assms(1) acct by (simp add: place_market_order_def get_session_def)
  next
    case (Some px)
    have a: "find_account (pending (get_session d)) account_name = Some acct"
      using acct by (simp add: get_session_def)
    have p: "\<forall>l \<in> set (lots (pending (get_session d))). 0 < lot_qty l"
      using assms(1) by (simp add: get_session_def lots_positive_def)
    have c: "lots_positive (committed (get_session d))"
      using assms(1) by (simp add: get_session_def)
    consider (buy) "upper side = ''BUY''" | (sell) "upper side = ''SELL''"
      | (other) "upper side \<noteq> ''BUY''" "upper side \<noteq> ''SELL''"
      by blast
    then show ?thesis
    proof cases
      case buy
      show ?thesis
        unfolding buy_cases [where last_price = last_price and symbol = symbol, OF a Some buy]
        using p c assms(2)
        by (auto simp: Let_def record_trade_def session_simps lots_simps lots_positive_def
              find_lot_def dest!: find_in_set split: option.splits)
    next
      case sell
      show ?thesis
        unfolding sell_cases [where last_price = last_price and symbol = symbol, OF a Some sell]
        using p c assms(2)
        by (auto simp: Let_def record_trade_def session_simps lots_simps lots_positive_def
              find_lot_def dest!: find_in_set split: option.splits)
    next
      case other
      show ?thesis
        using c a Some other by (simp add: place_market_order_def Let_def)
    qed
  qed
qed


lemma run_op_positive:
  assumes "lots_positive d" and "positive_qty c"
  shows "lots_positive (run_op cfg last_price today c d)"
proof (cases c)
  case (EnsureAccount name cash)
  then show ?thesis
    using assms(1)
    by (simp add: ensure_account_def Let_def commit_def add_account_def get_session_def
          lots_positive_def split: option.splits)
next
  case (PlaceMarketOrder account_name symbol side qty nt)
  then show ?thesis
    using assms order_keeps_positive by simp
next
  case (ComputeEquity account_name)
  then show ?thesis
    using assms(1) by (simp add: get_session_def split: sum.splits)
next
  case (MarkToMarket account_name)
  then show ?thesis
    using assms(1)
    by (simp add: mark_to_market_def Let_def commit_def add_mark_def get_session_def
          lots_positive_def split: option.splits sum.splits)
qed

lemma run_positive:
  "lots_positive d \<Longrightarrow> \<forall>st \<in> set steps. positive_qty (step_op st) \<Longrightarrow>
   lots_positive (run steps d)"
proof (induction steps arbitrary: d)
  case Nil
  then show ?case by simp
next
  case (Cons st steps)
  obtain cfg last_price today c where st: "st = (cfg, last_price, today, c)"
    by (cases st) auto
  have "lots_positive (run_op cfg last_price today c d)"
    using Cons.prems st by (simp add: run_op_positive)
  then show ?case
    using Cons st by simp
qed

text \<open>
  C6, as amended. In every ledger reached from the empty one by \<open>ensure_account\<close>,
  \<open>place_market_order\<close> with any account name, symbol and side but a positive
  quantity, \<open>compute_equity\<close> and \<open>mark_to_market\<close>, every position lot has a
  quantity that is not negative and not zero.
\<close>

theorem lots_stay_positive:
  assumes "\<forall>st \<in> set steps. positive_qty (step_op st)"
  shows "\<forall>l \<in> set (lots (run steps empty_db)). 0 \<le> lot_qty l \<and> lot_qty l \<noteq> 0"
proof -
  have "lots_positive empty_db"
    by (simp add: lots_positive_def empty_db_def)
  then have "lots_positive (run steps empty_db)"
    using assms by (rule run_positive)
  then show ?thesis
    by (auto simp: lots_positive_def)
qed

lemma run_seed:
  "committed (fst (ensure_account settings (get_session empty_db) ''core'' None)) = core_db"
  by (simp add: ensure_account_def empty_db_def get_session_def find_account_def
        add_account_def commit_def next_id_def settings_def core_db_def Let_def)

theorem lots_stay_positive_witness:
  "lots (run [(settings, \<lambda>_. Some 100, 0, EnsureAccount ''core'' None),
              (settings, \<lambda>_. Some 100, 0, PlaceMarketOrder ''core'' ''AAPL'' ''BUY'' 10 [])]
          empty_db) =
     [\<lparr>lot_id = 1, lot_account_id = 1, lot_symbol = ''AAPL'', lot_qty = 10,
       lot_avg_cost = 1001 / 10\<rparr>] \<and>
   0 < lot_qty (hd (lots (run [(settings, \<lambda>_. Some 100, 0, EnsureAccount ''core'' None),
              (settings, \<lambda>_. Some 100, 0, PlaceMarketOrder ''core'' ''AAPL'' ''BUY'' 10 [])]
          empty_db)))"
proof -
  let ?steps = "[(settings, \<lambda>_. Some 100, 0, EnsureAccount ''core'' None),
              (settings, \<lambda>_. Some (100::real), 0::nat, PlaceMarketOrder ''core'' ''AAPL'' ''BUY'' 10 [])]"
  have ev: "lots (run ?steps empty_db) =
     [\<lparr>lot_id = 1, lot_account_id = 1, lot_symbol = ''AAPL'', lot_qty = 10,
       lot_avg_cost = 1001 / 10\<rparr>]"
    by (simp add: run_seed scenario_run Let_def)
  have "\<forall>st \<in> set ?steps. positive_qty (step_op st)"
    by simp
  from lots_stay_positive [OF this] ev
  show ?thesis
    by simp
qed

text \<open>
  C6 as stated fails: \<open>place_market_order\<close> does not check the sign of the quantity.
  After \<open>ensure_account\<close> a BUY of \<open>- 1\<close> leaves a lot of quantity \<open>- 1\<close>, and a
  BUY of \<open>0\<close> leaves a lot of quantity \<open>0\<close>.
\<close>

theorem lots_stay_positive_counterexample:
  "map lot_qty (lots (run [(settings, \<lambda>_. Some 100, 0, EnsureAccount ''core'' None),
              (settings, \<lambda>_. Some 100, 0, PlaceMarketOrder ''core'' ''AAPL'' ''BUY'' (- 1) [])]
          empty_db)) = [- 1] \<and>
   map lot_qty (lots (run [(settings, \<lambda>_. Some 100, 0, EnsureAccount ''core'' None),
              (settings, \<lambda>_. Some 100, 0, PlaceMarketOrder ''core'' ''AAPL'' ''BUY'' 0 [])]
          empty_db)) = [0]"
proof -
  have "map lot_qty (lots (committed (fst (place_market_order settings (\<lambda>_. Some 100)
          (get_session core_db) ''core'' ''AAPL'' ''BUY'' (- 1) [])))) = [- 1]"
    by (simp add: place_market_order_def settings_def core_db_def get_session_def
        find_account_def find_lot_def apply_slippage_def upper_BUY put_account_def
        record_trade_def add_lot_def add_trade_def commit_def next_id_def Let_def)
  moreover have "map lot_qty (lots (committed (fst (place_market_order settings (\<lambda>_. Some 100)
          (get_session core_db) ''core'' ''AAPL'' ''BUY'' 0 [])))) = [0]"
    by (simp add: place_market_order_def settings_def core_db_def get_session_def
        find_account_def find_lot_def apply_slippage_def upper_BUY put_account_def
        record_trade_def add_lot_def add_trade_def commit_def next_id_def Let_def)
  ultimately show ?thesis
    by (simp add: run_seed)
qed

lemma dropna_replicate: "dropna (replicate n (Some x)) = replicate n x"
  by (induction n) (simp_all add: dropna_def)

lemma dropna_nonempty: "dropna col \<noteq> [] \<Longrightarrow> col \<noteq> []"
  by (auto simp: dropna_def)

text \<open>
  C7. The claim is that \<open>momentum_score\<close> succeeds on every series of at least 60
  closes. The guard of the code admits 60 closes, but the 3-month return reads the close
  at position \<open>- 63\<close>: on a series of 60, 61 or 62 closes \<open>momentum_score\<close> raises
  \<open>IndexError\<close> instead of returning a score.
\<close>

theorem momentum_score_short_window:
  assumes "60 \<le> length (dropna (yf symbol))" and "length (dropna (yf symbol)) < 63"
  shows "momentum_score yf symbol = Inl IndexError"
proof -
  have "dropna (yf symbol) \<noteq> []"
    using assms(1) by auto
  then have "yf symbol \<noteq> []"
    by (rule dropna_nonempty)
  then show ?thesis
    using assms
    by (simp add: momentum_score_def history_def iloc_def Let_def)
qed

theorem momentum_score_short_window_witness:
  "momentum_score (\<lambda>_. replicate 60 (Some 1)) ''AAA'' = Inl IndexError"
  using momentum_score_short_window [of "\<lambda>_. replicate 60 (Some 1)" "''AAA''"]
  by (simp add: dropna_replicate)

lemma momentum_score_too_short:
  assumes "yf symbol \<noteq> []" and "length (dropna (yf symbol)) < 60"
  shows "momentum_score yf symbol = Inl InsufficientHistory"
  using assms by (simp add: momentum_score_def history_def Let_def)

lemma momentum_score_long_window:
  assumes "63 \<le> length (dropna (yf symbol))"
  shows "\<exists>m. momentum_score yf symbol = Inr m \<and> score m = ret_3m m + ret_1m m \<and>
     ret_1m m = last (dropna (yf symbol)) /
                  dropna (yf symbol) ! (length (dropna (yf symbol)) - 21) - 1 \<and>
     ret_3m m = last (dropna (yf symbol)) /
                  dropna (yf symbol) ! (length (dropna (yf symbol)) - 63) - 1"
proof -
  have ne: "dropna (yf symbol) \<noteq> []"
    using assms by auto
  then have "yf symbol \<noteq> []"
    by (rule dropna_nonempty)
  moreover have "nat (int (length (dropna (yf symbol))) - 1) = length (dropna (yf symbol)) - 1"
    "nat (int (length (dropna (yf symbol))) - 21) = length (dropna (yf symbol)) - 21"
    "nat (int (length (dropna (yf symbol))) - 63) = length (dropna (yf symbol)) - 63"
    by simp_all
  ultimately show ?thesis
    using assms ne
    by (simp add: momentum_score_def history_def iloc_def Let_def last_conv_nth)
qed

lemma length_cummax_from: "length (cummax_from m xs) = length xs"
  by (induction xs arbitrary: m) auto

lemma length_cummax: "length (cummax xs) = length xs"
  by (cases xs) (simp_all add: length_cummax_from)

lemma Max_insert_max:
  "finite A \<Longrightarrow> Max (insert (max (m::real) x) A) = Max (insert m (insert x A))"
  by (cases "A = {}") (simp_all add: max.assoc)

lemma Min_insert_min:
  "finite A \<Longrightarrow> Min (insert (min (y::real) a) A) = Min (insert a (insert y A))"
  by (cases "A = {}") (simp_all add: min.assoc min.commute min.left_commute)

lemma cummax_from_nth:
  "i < length xs \<Longrightarrow> cummax_from m xs ! i = Max (insert m (set (take (Suc i) xs)))"
proof (induction xs arbitrary: m i)
  case Nil
  then show ?case by simp
next
  case (Cons x xs)
  show ?case
  proof (cases i)
    case 0
    then show ?thesis by simp
  next
    case (Suc j)
    then have "j < length xs"
      using Cons.prems by simp
    then have "cummax_from (max m x) xs ! j = Max (insert (max m x) (set (take (Suc j) xs)))"
      by (rule Cons.IH)
    then show ?thesis
      using Suc by (simp add: Max_insert_max)
  qed
qed

lemma cummax_nth: "i < length xs \<Longrightarrow> cummax xs ! i = running_peak xs i"
proof (cases xs)
  case Nil
  assume "i < length xs"
  with Nil show ?thesis by simp
next
  case (Cons x rest)
  assume i: "i < length xs"
  show ?thesis
  proof (cases i)
    case 0
    then show ?thesis using Cons by (simp add: running_peak_def)
  next
    case (Suc j)
    then have "j < length rest" using i Cons by simp
    then show ?thesis
      using Cons Suc by (simp add: running_peak_def cummax_from_nth)
  qed
qed

lemma running_peak_ge_hd:
  assumes "i < length xs"
  shows "hd xs \<le> running_peak xs i"
proof -
  have "xs \<noteq> []" using assms by auto
  then have "hd xs \<in> set (take (Suc i) xs)"
    by (cases xs) simp_all
  then show ?thesis
    unfolding running_peak_def by (simp add: Max_ge)
qed

lemma running_peak_sorted:
  assumes "sorted xs" and "i < length xs"
  shows "running_peak xs i = xs ! i"
  unfolding running_peak_def
proof (rule Max_eqI)
  show "finite (set (take (Suc i) xs))" by simp
next
  fix y
  assume "y \<in> set (take (Suc i) xs)"
  then obtain j where "j < length (take (Suc i) xs)" and "y = take (Suc i) xs ! j"
    by (auto simp: in_set_conv_nth)
  then have "j \<le> i" and "y = xs ! j"
    by simp_all
  then show "y \<le> xs ! i"
    using assms by (simp add: sorted_nth_mono)
next
  have "take (Suc i) xs ! i = xs ! i" by simp
  moreover have "i < length (take (Suc i) xs)" using assms(2) by simp
  ultimately show "xs ! i \<in> set (take (Suc i) xs)"
    by (metis nth_mem)
qed

lemma fold_np_min_Fin:
  "fold np_min (map Fin ys) (Fin a) = Fin (Min (insert a (set ys)))"
proof (induction ys arbitrary: a)
  case Nil
  then show ?case by simp
next
  case (Cons y ys)
  have "fold np_min (map Fin (y # ys)) (Fin a) = fold np_min (map Fin ys) (Fin (min y a))"
    by simp
  also have "\<dots> = Fin (Min (insert (min y a) (set ys)))"
    by (rule Cons.IH)
  also have "\<dots> = Fin (Min (insert a (set (y # ys))))"
    by (simp add: Min_insert_min)
  finally show ?case .
qed

lemma series_min_Fin: "ys \<noteq> [] \<Longrightarrow> series_min (map Fin ys) = Fin (Min (set ys))"
  by (cases ys) (simp_all add: series_min_def fold_np_min_Fin)

lemma drawdowns_finite:
  assumes "0 < hd series"
  shows "map (\<lambda>(x, p). np_sub (np_div x p) 1) (zip series (cummax series)) =
         map Fin (map (\<lambda>i. series ! i / running_peak series i - 1) [0 ..< length series])"
proof (rule nth_equalityI)
  show "length (map (\<lambda>(x, p). np_sub (np_div x p) 1) (zip series (cummax series))) =
        length (map Fin (map (\<lambda>i. series ! i / running_peak series i - 1) [0 ..< length series]))"
    by (simp add: length_cummax)
next
  fix i
  assume "i < length (map (\<lambda>(x, p). np_sub (np_div x p) 1) (zip series (cummax series)))"
  then have i: "i < length series"
    by (simp add: length_cummax)
  then have "0 < running_peak series i"
    using assms running_peak_ge_hd [OF i] by linarith
  then show "map (\<lambda>(x, p). np_sub (np_div x p) 1) (zip series (cummax series)) ! i =
        map Fin (map (\<lambda>i. series ! i / running_peak series i - 1) [0 ..< length series]) ! i"
    using i by (simp add: length_cummax cummax_nth)
qed

text \<open>
  On a series that is not empty and starts with a positive value every running peak is
  positive, and \<open>max_drawdown\<close> is the least drawdown of the specification; on such
  a series that is increasing it is 0.
\<close>

lemma max_drawdown_positive:
  assumes "series \<noteq> []" and "0 < hd series"
  shows "max_drawdown series = Fin (least_drawdown series)"
proof -
  have "map (\<lambda>i. series ! i / running_peak series i - 1) [0 ..< length series] \<noteq> []"
    using assms(1) by simp
  then have "max_drawdown series =
      Fin (Min (set (map (\<lambda>i. series ! i / running_peak series i - 1) [0 ..< length series])))"
    unfolding max_drawdown_def Let_def drawdowns_finite [OF assms(2)]
    by (rule series_min_Fin)
  then show ?thesis
    by (simp add: least_drawdown_def atLeast0LessThan)
qed

lemma least_drawdown_sorted:
  assumes "series \<noteq> []" and "0 < hd series" and "sorted series"
  shows "least_drawdown series = 0"
proof -
  let ?f = "\<lambda>i. series ! i / running_peak series i - 1"
  have z: "?f i = 0" if i: "i < length series" for i
  proof -
    have "running_peak series i = series ! i"
      using assms(3) i by (rule running_peak_sorted)
    moreover have "0 < running_peak series i"
      using assms(2) running_peak_ge_hd [OF i] by linarith
    ultimately show ?thesis
      by simp
  qed
  have "?f ` {..<length series} = (\<lambda>i. 0) ` {..<length series}"
  proof (rule image_cong [OF refl])
    fix i
    assume "i \<in> {..<length series}"
    then have "i < length series" by simp
    then show "?f i = 0" by (rule z)
  qed
  also have "\<dots> = {0}"
  proof -
    have "0 \<in> {..<length series}"
      using assms(1) by simp
    then have "{..<length series} \<noteq> {}"
      by blast
    then show ?thesis
      by (simp add: image_constant_conv)
  qed
  finally show ?thesis
    by (simp add: least_drawdown_def)
qed

lemma max_drawdown_ui_nonempty:
  "series \<noteq> [] \<Longrightarrow> max_drawdown_ui series = max_drawdown series"
  by (cases series) (simp_all add: max_drawdown_ui_def max_drawdown_def Let_def)

text \<open>
  C8. The claim gives 0 for the empty series, and so does the copy of
  \<open>max_drawdown\<close> in app/ui.py. The \<open>max_drawdown\<close> of app/compare.py lacks that
  guard: on the empty series the minimum is taken of nothing, and the result is NaN.
\<close>

theorem max_drawdown_empty:
  "max_drawdown [] = NaN \<and> max_drawdown_ui [] = Fin 0"
  by (simp add: max_drawdown_def max_drawdown_ui_def series_min_def)

end
